theory Spec2Isabelle
  imports Main "HOL-Library.Char_ord" "HOL-Library.List_Lexorder" "HOL-Library.Multiset"
    "HOL-Library.Sublist"
begin

section \<open>Data model of the announcement subsystem\<close>

text \<open>
  Values stored in the free-form dictionaries of a webhook and sent in a JSON payload.
  The entries the code reads (\<^verbatim>\<open>extra_fields['channel']\<close>, the event selectors) hold
  a string or \<^verbatim>\<open>None\<close>.
\<close>

datatype pyval = PyNone | PyStr string

type_synonym pydict = "string \<rightharpoonup> pyval"

text \<open>Identifiers are UUID objects; unlike an integer, a UUID is never falsy.\<close>

datatype uuid = UUID nat

text \<open>
  Exceptions the modelled code can raise. \<open>KeyError\<close> carries the missing key, and
  \<open>AttributeError\<close> and \<open>RequestException\<close> the text \<^verbatim>\<open>str(e)\<close> gives.
  \<open>RequestException\<close> is what \<^verbatim>\<open>requests.post\<close> raises when the request cannot be
  carried out. \<open>TypeError\<close> is what comparing \<^verbatim>\<open>None\<close> raises in a sort; its text names
  the two operand types in the order of the failing comparison, which depends on the
  sorting routine, so it is left open. \<open>NotFound\<close> is \<^verbatim>\<open>abort(404)\<close>.
\<close>

datatype error =
    KeyError string
  | TypeError
  | AttributeError string
  | RequestException string
  | NotFound

text \<open>
  \<^verbatim>\<open>OutgoingWebhook\<close> (\<^verbatim>\<open>services/webhooks/transfer/models.py\<close>), with the attributes
  the sources read. \<open>extra_fields\<close> is a dictionary (the code calls \<^verbatim>\<open>.get\<close> on it and
  indexes it), empty when nothing is configured.
\<close>

record OutgoingWebhook =
  wh_id :: uuid
  event_selectors :: pydict
  scope :: string
  scope_id :: "string option"
  format :: string
  text_prefix :: "string option"
  extra_fields :: pydict
  url :: string
  description :: "string option"
  enabled :: bool

record User =
  user_ident :: uuid
  screen_name :: "string option"

record Badge =
  badge_ident :: uuid
  label :: string

datatype channel = CHANNEL_ORGA_LOG | CHANNEL_PUBLIC

datatype flash = FlashSuccess string | FlashError string

text \<open>
  The state the code reads and writes: the webhook registry, the user and badge tables,
  the HTTP POST requests issued so far (URL and JSON body, \<open>None\<close> for a body of
  \<^verbatim>\<open>None\<close>), the warnings written to the application log, the messages handed to the
  IRC sender and the flash messages shown to the administrator.
\<close>

record world =
  webhooks :: "OutgoingWebhook list"
  users :: "uuid \<rightharpoonup> User"
  badges :: "uuid \<rightharpoonup> Badge"
  posts :: "(string \<times> pydict option) list"
  warnings :: "string list"
  irc_outbox :: "(channel \<times> string) list"
  flashes :: "flash list"

text \<open>
  The network, as \<^verbatim>\<open>requests.post(url, json=data)\<close> sees it: the request either
  raises or returns a response with a status code.
\<close>

type_synonym network = "string \<Rightarrow> pydict option \<Rightarrow> error + nat"

text \<open>A string between single quotes, as Python prints a key or a type name.\<close>

definition quoted :: "string \<Rightarrow> string" where
  "quoted s = [CHR 0x27] @ s @ [CHR 0x27]"

text \<open>\<^verbatim>\<open>str(e)\<close>, for the exceptions whose text is fixed.\<close>

fun exc_str :: "error \<Rightarrow> string" where
  "exc_str (KeyError k) = quoted k"
| "exc_str (AttributeError m) = m"
| "exc_str (RequestException m) = m"
| "exc_str NotFound = ''404 Not Found''"

text \<open>An optional string inside an f-string: \<^verbatim>\<open>None\<close> is rendered as the word None.\<close>

definition fstr :: "string option \<Rightarrow> string" where
  "fstr v = (case v of None \<Rightarrow> ''None'' | Some s \<Rightarrow> s)"

text \<open>What reading attribute \<open>a\<close> of \<^verbatim>\<open>None\<close> raises.\<close>

definition none_has_no :: "string \<Rightarrow> error" where
  "none_has_no a =
     AttributeError (quoted ''NoneType'' @ '' object has no attribute '' @ quoted a)"








section \<open>byceps.announce.helpers\<close>

text \<open>Truth value of a stored value: \<^verbatim>\<open>None\<close> and the empty string are falsy.\<close>

fun truthy :: "pyval \<Rightarrow> bool" where
  "truthy PyNone = False"
| "truthy (PyStr s) = (s \<noteq> [])"


definition match_scope :: "OutgoingWebhook \<Rightarrow> string \<Rightarrow> string \<Rightarrow> bool" where
  "match_scope webhook sc sc_id \<longleftrightarrow> scope webhook = sc \<and> scope_id webhook = Some sc_id"

text \<open>\<^verbatim>\<open>d.get(k)\<close>: the value, or \<^verbatim>\<open>None\<close> for a missing key.\<close>

definition dict_get :: "pydict \<Rightarrow> string \<Rightarrow> pyval" where
  "dict_get d k = (case d k of None \<Rightarrow> PyNone | Some v \<Rightarrow> v)"

text \<open>
  \<^verbatim>\<open>_assemble_request_data\<close>. A format other than the two known ones falls off the end
  of the function, which returns \<^verbatim>\<open>None\<close>.
\<close>

definition assemble_request_data ::
  "OutgoingWebhook \<Rightarrow> string \<Rightarrow> world \<Rightarrow> pydict option \<times> world" where
  "assemble_request_data webhook text w =
     (if format webhook = ''discord'' then
        (Some [''content'' \<mapsto> PyStr text], w)
      else if format webhook = ''weitersager'' then
        (let channel = dict_get (extra_fields webhook) ''channel'';
             w' = (if \<not> truthy channel
                   then w\<lparr>warnings := warnings w @ [''No channel specified with IRC webhook.'']\<rparr>
                   else w)
         in (Some [''channel'' \<mapsto> channel, ''text'' \<mapsto> PyStr text], w'))
      else (None, w))"

definition call_webhook ::
  "network \<Rightarrow> OutgoingWebhook \<Rightarrow> string \<Rightarrow> world \<Rightarrow> (error + unit) \<times> world" where
  "call_webhook net webhook text w =
     (let text' = (case text_prefix webhook of
                     None \<Rightarrow> text
                   | Some p \<Rightarrow> if p \<noteq> [] then p @ text else text);
          (data, w1) = assemble_request_data webhook text' w;
          w2 = w1\<lparr>posts := posts w1 @ [(url webhook, data)]\<rparr>
      in case net (url webhook) data of
           Inl e \<Rightarrow> (Inl e, w2)
         | Inr status \<Rightarrow> (Inr (), w2))"

section \<open>The webhook registry\<close>

text \<open>
  Modelled from the spec: \<^verbatim>\<open>services/webhooks/service.py\<close> is not among the sources.
  The registry is a plain keyed store that "exposes lookup by (event type name, format)
  filtered to enabled webhooks, and full CRUD for administration". The lookup keeps the
  order of the store.
\<close>

definition get_enabled_outgoing_webhooks ::
  "world \<Rightarrow> string \<Rightarrow> string \<Rightarrow> OutgoingWebhook list" where
  "get_enabled_outgoing_webhooks w event_name webhook_format =
     filter (\<lambda>wh. enabled wh \<and> event_selectors wh event_name \<noteq> None
                  \<and> format wh = webhook_format) (webhooks w)"

text \<open>Modelled from the spec: lookup of one webhook by its id, \<open>None\<close> when absent.\<close>

definition find_webhook :: "world \<Rightarrow> uuid \<Rightarrow> OutgoingWebhook option" where
  "find_webhook w i = List.find (\<lambda>wh. wh_id wh = i) (webhooks w)"



section \<open>Looking up the webhooks for an event\<close>

text \<open>
  \<^verbatim>\<open>get_name_for_event\<close> (\<^verbatim>\<open>announce/events.py\<close>) is a parameter: it maps an event to
  the name of its type.
\<close>

definition get_webhooks_for_discord ::
  "('e \<Rightarrow> string) \<Rightarrow> 'e \<Rightarrow> world \<Rightarrow> OutgoingWebhook list" where
  "get_webhooks_for_discord get_name_for_event event w =
     get_enabled_outgoing_webhooks w (get_name_for_event event) ''discord''"

text \<open>
  \<^verbatim>\<open>webhooks.sort(key=lambda wh: wh.extra_fields['channel'])\<close>. The keys are computed
  first: a webhook without a \<^verbatim>\<open>'channel'\<close> entry raises \<^verbatim>\<open>KeyError\<close>. With two or
  more webhooks the keys are compared, and \<^verbatim>\<open>None\<close> compares with nothing:
  \<^verbatim>\<open>TypeError\<close>. Otherwise the sort is the stable sort of
  Python, by the string order of the channel names.
\<close>

definition channel_key :: "OutgoingWebhook \<Rightarrow> string" where
  "channel_key wh = (case extra_fields wh ''channel'' of Some (PyStr s) \<Rightarrow> s | _ \<Rightarrow> [])"

definition sort_by_channel :: "OutgoingWebhook list \<Rightarrow> error + OutgoingWebhook list" where
  "sort_by_channel whs =
     (if list_ex (\<lambda>wh. extra_fields wh ''channel'' = None) whs then
        Inl (KeyError ''channel'')
      else if 2 \<le> length whs \<and> list_ex (\<lambda>wh. extra_fields wh ''channel'' = Some PyNone) whs then
        Inl TypeError
      else Inr (sort_key channel_key whs))"

definition get_webhooks_for_irc ::
  "('e \<Rightarrow> string) \<Rightarrow> 'e \<Rightarrow> world \<Rightarrow> (error + OutgoingWebhook list) \<times> world" where
  "get_webhooks_for_irc get_name_for_event event w =
     (let whs = get_enabled_outgoing_webhooks w (get_name_for_event event) ''weitersager''
      in if whs = [] then
           (Inr [], w\<lparr>warnings := warnings w @
              [''No enabled IRC webhooks found. Not sending message to IRC.'']\<rparr>)
         else (sort_by_channel whs, w))"

section \<open>Delivery\<close>

text \<open>
  Modelled from the spec: the announcers that walk a list of webhooks are not among the
  sources. "For each target, the dispatcher sends one HTTP request": the loop calls
  \<open>call_webhook\<close> for each webhook of the list in turn; an exception leaves the loop.
\<close>

fun call_webhooks ::
  "network \<Rightarrow> OutgoingWebhook list \<Rightarrow> string \<Rightarrow> world \<Rightarrow> (error + unit) \<times> world" where
  "call_webhooks net [] text w = (Inr (), w)"
| "call_webhooks net (wh # whs) text w =
     (case call_webhook net wh text w of
        (Inl e, w') \<Rightarrow> (Inl e, w')
      | (Inr _, w') \<Rightarrow> call_webhooks net whs text w')"

definition deliver_to_discord ::
  "('e \<Rightarrow> string) \<Rightarrow> network \<Rightarrow> 'e \<Rightarrow> string \<Rightarrow> world \<Rightarrow> (error + unit) \<times> world" where
  "deliver_to_discord get_name_for_event net event text w =
     call_webhooks net (get_webhooks_for_discord get_name_for_event event w) text w"

definition deliver_to_irc ::
  "('e \<Rightarrow> string) \<Rightarrow> network \<Rightarrow> 'e \<Rightarrow> string \<Rightarrow> world \<Rightarrow> (error + unit) \<times> world" where
  "deliver_to_irc get_name_for_event net event text w =
     (case get_webhooks_for_irc get_name_for_event event w of
        (Inl e, w') \<Rightarrow> (Inl e, w')
      | (Inr whs, w') \<Rightarrow> call_webhooks net whs text w')"

section \<open>byceps.announce.irc\<close>

text \<open>
  Modelled from the spec: \<^verbatim>\<open>util/irc.py\<close> is not among the sources. The channel set of
  IRC delivery is "chosen per event type by the announcer, independent of the webhook
  registry": \<open>send_message\<close> hands the text to each channel it is given.
\<close>

definition send_message :: "channel list \<Rightarrow> string \<Rightarrow> world \<Rightarrow> (error + unit) \<times> world" where
  "send_message channels text w =
     (Inr (), w\<lparr>irc_outbox := irc_outbox w @ map (\<lambda>c. (c, text)) channels\<rparr>)"

text \<open>\<^verbatim>\<open>user_service.find_user\<close> and \<^verbatim>\<open>user_badge_service.find_badge\<close>: table lookups.\<close>

definition find_user :: "world \<Rightarrow> uuid \<Rightarrow> User option" where
  "find_user w i = users w i"

definition find_badge :: "world \<Rightarrow> uuid \<Rightarrow> Badge option" where
  "find_badge w i = badges w i"


datatype UserBadgeAwarded = UserBadgeAwarded nat "uuid option" uuid uuid


fun announce_user_badge_awarded ::
  "UserBadgeAwarded \<Rightarrow> world \<Rightarrow> (error + unit) \<times> world" where
  "announce_user_badge_awarded (UserBadgeAwarded occurred_at initiator_id user_id badge_id) w =
     (let channels = [CHANNEL_ORGA_LOG];
          user = find_user w user_id;
          badge = find_badge w badge_id;
          initiator_name =
            (case initiator_id of
               Some i \<Rightarrow>
                 (case find_user w i of
                    None \<Rightarrow> Inl (none_has_no ''screen_name'')
                  | Some initiator \<Rightarrow> Inr (fstr (screen_name initiator)))
             | None \<Rightarrow> Inr ''Jemand'')
      in case initiator_name of
           Inl e \<Rightarrow> (Inl e, w)
         | Inr iname \<Rightarrow>
             (case badge of
                None \<Rightarrow> (Inl (none_has_no ''label''), w)
              | Some b \<Rightarrow>
                  (case user of
                     None \<Rightarrow> (Inl (none_has_no ''screen_name''), w)
                   | Some u \<Rightarrow>
                       send_message channels
                         (iname @ '' hat das Abzeichen '' @ [CHR 0x22] @ label b @ [CHR 0x22]
                            @ '' an '' @ fstr (screen_name u) @ '' verliehen.'') w)))"

section \<open>byceps.blueprints.admin.webhook.views\<close>

text \<open>
  The submitted form (\<^verbatim>\<open>request.form\<close>): the data of each field, and for each event
  name whether its checkbox is ticked. The form classes and their validation
  (\<^verbatim>\<open>forms.py\<close>) are not among the sources; validation is a parameter of the views.
\<close>

record webhook_form =
  format_data :: string
  url_data :: string
  text_prefix_data :: string
  description_data :: string
  enabled_data :: bool
  event_data :: "string \<Rightarrow> bool"

datatype response = Form_shown | Redirect_to_index | No_content




text \<open>The text of the test call; its ellipsis is the three bytes of U+2026 in UTF-8.\<close>

definition test_text :: string where
  "test_text = ''Test, test '' @ [CHR 0xE2, CHR 0x80, CHR 0xA6] @ '' is this thing on?!''"

text \<open>The flash message of a failed test call: the translated label and \<^verbatim>\<open>str(e)\<close>.\<close>

definition call_failed_text :: "(string \<Rightarrow> string) \<Rightarrow> error \<Rightarrow> string" where
  "call_failed_text gettext e =
     gettext ''Webhook call failed:'' @
     ''<br><pre style='' @ [CHR 0x22] @ ''white-space: pre-wrap;'' @ [CHR 0x22] @ ''>'' @
     exc_str e @ ''</pre>''"

definition test ::
  "network \<Rightarrow> (string \<Rightarrow> string) \<Rightarrow> uuid \<Rightarrow> world \<Rightarrow> (error + response) \<times> world" where
  "test net gettext webhook_id w =
     (case find_webhook w webhook_id of
        None \<Rightarrow> (Inl NotFound, w)
      | Some webhook \<Rightarrow>
          (case call_webhook net webhook test_text w of
             (Inr _, w') \<Rightarrow>
               (Inr No_content,
                w'\<lparr>flashes := flashes w' @
                   [FlashSuccess (gettext ''Webhook call has been successful.'')]\<rparr>)
           | (Inl e, w') \<Rightarrow>
               (Inr No_content,
                w'\<lparr>flashes := flashes w' @
                   [FlashError (call_failed_text gettext e)]\<rparr>)))"

text \<open>
  The administrator's requests that change or call a webhook, and the views that serve
  them, one after the other. A view that answers 404 leaves the state as it is.
\<close>

datatype admin_request =
    Create "uuid \<times> string \<times> string option" webhook_form
  | Update uuid webhook_form
  | Test uuid




section \<open>Sample data\<close>

definition net_ok :: network where
  "net_ok u d = Inr 204"

definition net_error :: network where
  "net_error u d = Inr 500"

definition net_down :: network where
  "net_down u d = Inl (RequestException ''Connection refused'')"

definition w0 :: world where
  "w0 = \<lparr>webhooks = [], users = Map.empty, badges = Map.empty, posts = [], warnings = [],
          irc_outbox = [], flashes = []\<rparr>"

definition wh_x :: OutgoingWebhook where
  "wh_x = \<lparr>wh_id = UUID 1, event_selectors = [''user-badge-awarded'' \<mapsto> PyNone],
            scope = ''board'', scope_id = Some ''7'', format = ''discord'',
            text_prefix = Some ''[X] '', extra_fields = Map.empty,
            url = ''https://chat.example/x'', description = None, enabled = True\<rparr>"

definition wh_off :: OutgoingWebhook where
  "wh_off = wh_x\<lparr>wh_id := UUID 2, url := ''https://chat.example/off'', enabled := False\<rparr>"

definition wh_other :: OutgoingWebhook where
  "wh_other = wh_x\<lparr>wh_id := UUID 3, url := ''https://chat.example/other'',
                     scope_id := Some ''8'',
                     event_selectors := [''user-account-created'' \<mapsto> PyNone]\<rparr>"

definition nameless :: User where
  "nameless = \<lparr>user_ident = UUID 11, screen_name = None\<rparr>"

definition alice :: User where
  "alice = \<lparr>user_ident = UUID 10, screen_name = Some ''Alice''\<rparr>"

definition hero :: Badge where
  "hero = \<lparr>badge_ident = UUID 20, label = ''Hero''\<rparr>"

definition irc_hook :: "nat \<Rightarrow> pydict \<Rightarrow> OutgoingWebhook" where
  "irc_hook n extra =
     \<lparr>wh_id = UUID n, event_selectors = [''user-badge-awarded'' \<mapsto> PyNone],
      scope = ''any'', scope_id = None, format = ''weitersager'',
      text_prefix = None, extra_fields = extra,
      url = ''https://irc.example/relay'', description = None, enabled = True\<rparr>"

definition w_reg :: world where
  "w_reg = w0\<lparr>webhooks := [wh_off, wh_other, wh_x]\<rparr>"

definition w_irc :: world where
  "w_irc = w0\<lparr>webhooks := [irc_hook 1 [''channel'' \<mapsto> PyStr ''#b''], wh_x,
                            irc_hook 2 [''channel'' \<mapsto> PyStr ''#a'']]\<rparr>"

definition w_badge :: world where
  "w_badge = w_irc\<lparr>users := [UUID 10 \<mapsto> alice, UUID 11 \<mapsto> nameless],
                     badges := [UUID 20 \<mapsto> hero]\<rparr>"

text \<open>
  Form input with whitespace around it: a space and U+2003 around the URL, U+00A0 and a
  space before the prefix, U+0085 after the description.
\<close>

definition raw_url :: string where
  "raw_url = '' https://chat.example/new'' @ [CHR 0xE2, CHR 0x80, CHR 0x83]"

definition raw_prefix :: string where
  "raw_prefix = [CHR 0xC2, CHR 0xA0] @ '' [new] ''"

definition raw_description :: string where
  "raw_description = ''new hook'' @ [CHR 0xC2, CHR 0x85]"

definition form_on :: webhook_form where
  "form_on = \<lparr>format_data = ''discord'', url_data = raw_url,
               text_prefix_data = raw_prefix, description_data = raw_description,
               enabled_data = True, event_data = (\<lambda>n. n = ''user-badge-awarded'')\<rparr>"



definition w_nochan :: world where
  "w_nochan = w0\<lparr>webhooks := [irc_hook 1 Map.empty]\<rparr>"

section \<open>Properties of the dispatcher\<close>

lemmas sample_defs = w_reg_def w_irc_def w_nochan_def w0_def wh_x_def wh_off_def wh_other_def
  irc_hook_def net_ok_def net_down_def net_error_def w_badge_def alice_def hero_def form_on_def
  nameless_def

lemma posts_assemble [simp]: "posts (snd (assemble_request_data wh t w)) = posts w"
  by (simp add: assemble_request_data_def Let_def)

lemma posts_call_webhook:
  "posts (snd (call_webhook net wh t w)) =
     posts w @ [(url wh, fst (assemble_request_data wh
        (case text_prefix wh of None \<Rightarrow> t | Some p \<Rightarrow> if p \<noteq> [] then p @ t else t) w))]"
  by (simp add: call_webhook_def Let_def split_beta split: sum.splits)

lemma urls_call_webhook:
  "map fst (posts (snd (call_webhook net wh t w))) = map fst (posts w) @ [url wh]"
  by (simp add: posts_call_webhook)

text \<open>
  The loop posts to the URLs of a starting piece of the list, in order, and to the whole
  list when it ends without an exception.
\<close>

lemma urls_call_webhooks:
  "\<exists>k\<le>length whs. map fst (posts (snd (call_webhooks net whs t w))) =
       map fst (posts w) @ map url (take k whs) \<and>
     (\<forall>r. fst (call_webhooks net whs t w) = Inr r \<longrightarrow> k = length whs)"
proof (induction whs arbitrary: w)
  case Nil
  then show ?case by simp
next
  case (Cons wh whs)
  obtain r w' where cw: "call_webhook net wh t w = (r, w')"
    by (cases "call_webhook net wh t w")
  then have u: "map fst (posts w') = map fst (posts w) @ [url wh]"
    using urls_call_webhook [of net wh t w] by simp
  show ?case
  proof (cases r)
    case (Inl e)
    with cw u show ?thesis
      by (intro exI [of _ 1]) simp
  next
    case (Inr x)
    from Cons.IH [of w'] obtain k where k: "k \<le> length whs"
      "map fst (posts (snd (call_webhooks net whs t w'))) =
         map fst (posts w') @ map url (take k whs)"
      "\<forall>r. fst (call_webhooks net whs t w') = Inr r \<longrightarrow> k = length whs"
      by blast
    with cw u Inr show ?thesis
      by (intro exI [of _ "Suc k"]) simp
  qed
qed

lemma new_urls_call_webhooks:
  assumes "u \<in> set (drop (length (posts w)) (map fst (posts (snd (call_webhooks net whs t w)))))"
  shows "\<exists>wh\<in>set whs. url wh = u"
proof -
  from urls_call_webhooks [of whs net t w] obtain k where
    "map fst (posts (snd (call_webhooks net whs t w))) = map fst (posts w) @ map url (take k whs)"
    by blast
  with assms have "u \<in> set (map url (take k whs))" by simp
  then show ?thesis by (auto dest: in_set_takeD)
qed

lemma lookup_sound:
  "wh \<in> set (get_enabled_outgoing_webhooks w n f) \<Longrightarrow>
     wh \<in> set (webhooks w) \<and> enabled wh \<and> event_selectors wh n \<noteq> None \<and> format wh = f"
  by (simp add: get_enabled_outgoing_webhooks_def)

lemma irc_result_set:
  "get_webhooks_for_irc gn ev w = (Inr whs, w') \<Longrightarrow>
     set whs = set (get_enabled_outgoing_webhooks w (gn ev) ''weitersager'')"
  by (auto simp: get_webhooks_for_irc_def Let_def sort_by_channel_def split: if_splits)

lemma irc_posts: "posts (snd (get_webhooks_for_irc gn ev w)) = posts w"
  by (simp add: get_webhooks_for_irc_def Let_def)

text \<open>
  C1. For an event, the webhooks handed to the dispatcher, by the Discord lookup and by
  the IRC lookup when it returns, are webhooks of the registry that are enabled and have
  the name of the event's type among their selectors. Hence every POST request that
  delivering the event adds goes to the URL of such a webhook: a disabled webhook, or one
  whose selectors lack the event's type, is never called for the event.
\<close>

theorem dispatch_only_enabled_and_subscribed:
  "(\<forall>wh\<in>set (get_webhooks_for_discord gn ev w).
       wh \<in> set (webhooks w) \<and> enabled wh \<and> event_selectors wh (gn ev) \<noteq> None) \<and>
   (\<forall>whs. fst (get_webhooks_for_irc gn ev w) = Inr whs \<longrightarrow>
       (\<forall>wh\<in>set whs. wh \<in> set (webhooks w) \<and> enabled wh \<and> event_selectors wh (gn ev) \<noteq> None)) \<and>
   (\<forall>u\<in>set (drop (length (posts w)) (map fst (posts (snd (deliver_to_discord gn net ev t w))))).
       \<exists>wh\<in>set (webhooks w). url wh = u \<and> enabled wh \<and> event_selectors wh (gn ev) \<noteq> None) \<and>
   (\<forall>u\<in>set (drop (length (posts w)) (map fst (posts (snd (deliver_to_irc gn net ev t w))))).
       \<exists>wh\<in>set (webhooks w). url wh = u \<and> enabled wh \<and> event_selectors wh (gn ev) \<noteq> None)"
proof (intro conjI ballI allI impI)
  fix wh assume "wh \<in> set (get_webhooks_for_discord gn ev w)"
  then show "wh \<in> set (webhooks w)" "enabled wh" "event_selectors wh (gn ev) \<noteq> None"
    using lookup_sound by (auto simp: get_webhooks_for_discord_def)
next
  fix whs wh assume a: "fst (get_webhooks_for_irc gn ev w) = Inr whs" "wh \<in> set whs"
  then have "wh \<in> set (get_enabled_outgoing_webhooks w (gn ev) ''weitersager'')"
    using irc_result_set [of gn ev w whs "snd (get_webhooks_for_irc gn ev w)"]
    by (metis prod.collapse)
  then show "wh \<in> set (webhooks w)" "enabled wh" "event_selectors wh (gn ev) \<noteq> None"
    using lookup_sound by blast+
next
  fix u
  assume "u \<in> set (drop (length (posts w))
                     (map fst (posts (snd (deliver_to_discord gn net ev t w)))))"
  then obtain wh where "wh \<in> set (get_webhooks_for_discord gn ev w)" "url wh = u"
    unfolding deliver_to_discord_def using new_urls_call_webhooks by blast
  then show "\<exists>wh\<in>set (webhooks w). url wh = u \<and> enabled wh \<and> event_selectors wh (gn ev) \<noteq> None"
    using lookup_sound by (auto simp: get_webhooks_for_discord_def)
next
  fix u
  assume a: "u \<in> set (drop (length (posts w))
                        (map fst (posts (snd (deliver_to_irc gn net ev t w)))))"
  obtain r w' where g: "get_webhooks_for_irc gn ev w = (r, w')"
    by (cases "get_webhooks_for_irc gn ev w")
  then have p: "posts w' = posts w" using irc_posts [of gn ev w] by simp
  show "\<exists>wh\<in>set (webhooks w). url wh = u \<and> enabled wh \<and> event_selectors wh (gn ev) \<noteq> None"
  proof (cases r)
    case (Inl e)
    with a g p show ?thesis by (simp add: deliver_to_irc_def)
  next
    case (Inr whs)
    with a g p have "u \<in> set (drop (length (posts w'))
                                 (map fst (posts (snd (call_webhooks net whs t w')))))"
      by (simp add: deliver_to_irc_def)
    then obtain wh where "wh \<in> set whs" "url wh = u"
      using new_urls_call_webhooks by blast
    moreover have "set whs = set (get_enabled_outgoing_webhooks w (gn ev) ''weitersager'')"
      using irc_result_set [of gn ev w whs w'] g Inr by simp
    ultimately show ?thesis using lookup_sound by blast
  qed
qed

theorem dispatch_only_enabled_and_subscribed_witness:
  "wh_x \<in> set (get_webhooks_for_discord (\<lambda>e. ''user-badge-awarded'') () w_reg) \<and>
   enabled wh_x \<and> event_selectors wh_x ''user-badge-awarded'' \<noteq> None \<and>
   wh_off \<notin> set (get_webhooks_for_discord (\<lambda>e. ''user-badge-awarded'') () w_reg) \<and>
   wh_other \<notin> set (get_webhooks_for_discord (\<lambda>e. ''user-badge-awarded'') () w_reg) \<and>
   map fst (posts (snd (deliver_to_discord (\<lambda>e. ''user-badge-awarded'') net_ok ()
      ''hello'' w_reg))) = [''https://chat.example/x'']"
  using dispatch_only_enabled_and_subscribed
    [of "\<lambda>e. ''user-badge-awarded''" "()" w_reg net_ok "''hello''"]
  by (simp add: sample_defs get_webhooks_for_discord_def get_enabled_outgoing_webhooks_def
      deliver_to_discord_def call_webhook_def assemble_request_data_def)

text \<open>
  C2. \<open>match_scope\<close> holds exactly when the webhook's scope equals the scope type and its
  scope id equals the scope id of the event. Where an announcer filters its webhooks with
  it, every POST request that the delivery adds goes to the URL of a webhook whose scope
  and scope id are those of the event.
\<close>

theorem scope_filter_delivers_matching_only:
  "(match_scope wh sc sid \<longleftrightarrow> scope wh = sc \<and> scope_id wh = Some sid) \<and>
   (\<forall>u\<in>set (drop (length (posts w)) (map fst (posts (snd
         (call_webhooks net (filter (\<lambda>wh. match_scope wh sc sid) whs) t w))))).
       \<exists>wh\<in>set whs. url wh = u \<and> scope wh = sc \<and> scope_id wh = Some sid)"
proof (intro conjI ballI)
  show "match_scope wh sc sid \<longleftrightarrow> scope wh = sc \<and> scope_id wh = Some sid"
    by (simp add: match_scope_def)
next
  fix u
  assume "u \<in> set (drop (length (posts w)) (map fst (posts (snd
         (call_webhooks net (filter (\<lambda>wh. match_scope wh sc sid) whs) t w)))))"
  then obtain wh where "wh \<in> set (filter (\<lambda>wh. match_scope wh sc sid) whs)" "url wh = u"
    using new_urls_call_webhooks by blast
  then show "\<exists>wh\<in>set whs. url wh = u \<and> scope wh = sc \<and> scope_id wh = Some sid"
    by (auto simp: match_scope_def)
qed

theorem scope_filter_delivers_matching_only_witness:
  "match_scope wh_x ''board'' ''7'' \<and> \<not> match_scope wh_other ''board'' ''7'' \<and>
   map fst (posts (snd (call_webhooks net_ok
      (filter (\<lambda>wh. match_scope wh ''board'' ''7'') [wh_other, wh_x]) ''hello'' w0))) =
     [''https://chat.example/x'']"
  using scope_filter_delivers_matching_only
    [of wh_x "''board''" "''7''" w0 net_ok "[wh_other, wh_x]" "''hello''"]
  by (simp add: sample_defs match_scope_def call_webhook_def assemble_request_data_def)



text \<open>
  C4. The assembled payload is the dictionary with the single key \<^verbatim>\<open>content\<close> for the
  format \<^verbatim>\<open>discord\<close>, and the dictionary with the two keys \<^verbatim>\<open>channel\<close> (the
  configured channel, or \<^verbatim>\<open>None\<close>) and \<^verbatim>\<open>text\<close> for the format \<^verbatim>\<open>weitersager\<close>.
\<close>

theorem assemble_request_data_payload:
  "(format wh = ''discord'' \<longrightarrow>
      fst (assemble_request_data wh t w) = Some [''content'' \<mapsto> PyStr t] \<and>
      dom (the (fst (assemble_request_data wh t w))) = {''content''}) \<and>
   (format wh = ''weitersager'' \<longrightarrow>
      fst (assemble_request_data wh t w) =
        Some [''channel'' \<mapsto> dict_get (extra_fields wh) ''channel'', ''text'' \<mapsto> PyStr t] \<and>
      dom (the (fst (assemble_request_data wh t w))) = {''channel'', ''text''})"
  by (auto simp: assemble_request_data_def Let_def)

theorem assemble_request_data_payload_witness:
  "format wh_x = ''discord'' \<and>
   fst (assemble_request_data wh_x ''hi'' w0) = Some [''content'' \<mapsto> PyStr ''hi''] \<and>
   format (irc_hook 1 [''channel'' \<mapsto> PyStr ''#a'']) = ''weitersager'' \<and>
   fst (assemble_request_data (irc_hook 1 [''channel'' \<mapsto> PyStr ''#a'']) ''hi'' w0) =
     Some [''channel'' \<mapsto> PyStr ''#a'', ''text'' \<mapsto> PyStr ''hi''] \<and>
   fst (assemble_request_data (irc_hook 1 Map.empty) ''hi'' w0) =
     Some [''channel'' \<mapsto> PyNone, ''text'' \<mapsto> PyStr ''hi'']"
  using assemble_request_data_payload [of wh_x "''hi''" w0]
    assemble_request_data_payload [of "irc_hook 1 [''channel'' \<mapsto> PyStr ''#a'']" "''hi''" w0]
    assemble_request_data_payload [of "irc_hook 1 Map.empty" "''hi''" w0]
  by (simp add: sample_defs dict_get_def)

section \<open>Properties of the IRC lookup\<close>

lemma sort_by_channel_Inr:
  assumes "sort_by_channel whs = Inr whs'"
  shows "whs' = sort_key channel_key whs"
    and "2 \<le> length whs \<Longrightarrow> wh \<in> set whs \<Longrightarrow> extra_fields wh ''channel'' = Some (PyStr (channel_key wh))"
proof -
  from assms show "whs' = sort_key channel_key whs"
    by (auto simp: sort_by_channel_def split: if_splits)
  assume "2 \<le> length whs" "wh \<in> set whs"
  with assms have "extra_fields wh ''channel'' \<noteq> None" "extra_fields wh ''channel'' \<noteq> Some PyNone"
    by (auto simp: sort_by_channel_def list_ex_iff split: if_splits)
  then show "extra_fields wh ''channel'' = Some (PyStr (channel_key wh))"
    by (cases "extra_fields wh ''channel''"; cases "the (extra_fields wh ''channel'')")
       (auto simp: channel_key_def)
qed

lemma sort_by_channel_total:
  assumes "list_all (\<lambda>wh. \<exists>c. extra_fields wh ''channel'' = Some (PyStr c)) whs"
  shows "sort_by_channel whs = Inr (sort_key channel_key whs)"
proof -
  have "\<not> list_ex (\<lambda>wh. extra_fields wh ''channel'' = None) whs"
    "\<not> list_ex (\<lambda>wh. extra_fields wh ''channel'' = Some PyNone) whs"
    using assms by (auto simp: list_all_iff list_ex_iff)
  then show ?thesis by (simp add: sort_by_channel_def)
qed

lemma irc_result_cases:
  "fst (get_webhooks_for_irc gn ev w) =
     (if get_enabled_outgoing_webhooks w (gn ev) ''weitersager'' = [] then Inr []
      else sort_by_channel (get_enabled_outgoing_webhooks w (gn ev) ''weitersager''))"
  by (simp add: get_webhooks_for_irc_def Let_def)

text \<open>
  C5. An empty lookup result is returned as the empty list. A list that
  \<open>get_webhooks_for_irc\<close> returns is sorted by channel name, holds the webhooks of the
  lookup, each as often as the lookup does, and keeps webhooks of the same channel in the
  order of the lookup (the sort is stable); with two or more webhooks the key is the
  \<^verbatim>\<open>channel\<close> entry of the extra fields. When every webhook of the lookup has a channel
  name, the function does return: the stably sorted lookup result.
\<close>

theorem get_webhooks_for_irc_sorted:
  "(get_enabled_outgoing_webhooks w (gn ev) ''weitersager'' = [] \<longrightarrow>
      fst (get_webhooks_for_irc gn ev w) = Inr []) \<and>
   (\<forall>whs. fst (get_webhooks_for_irc gn ev w) = Inr whs \<longrightarrow>
      sorted (map channel_key whs) \<and>
      mset whs = mset (get_enabled_outgoing_webhooks w (gn ev) ''weitersager'') \<and>
      (\<forall>k. filter (\<lambda>wh. channel_key wh = k) whs =
           filter (\<lambda>wh. channel_key wh = k)
             (get_enabled_outgoing_webhooks w (gn ev) ''weitersager'')) \<and>
      (2 \<le> length whs \<longrightarrow>
         (\<forall>wh\<in>set whs. extra_fields wh ''channel'' = Some (PyStr (channel_key wh))))) \<and>
   (list_all (\<lambda>wh. \<exists>c. extra_fields wh ''channel'' = Some (PyStr c))
      (get_enabled_outgoing_webhooks w (gn ev) ''weitersager'') \<longrightarrow>
      fst (get_webhooks_for_irc gn ev w) =
        Inr (sort_key channel_key (get_enabled_outgoing_webhooks w (gn ev) ''weitersager'')))"
proof -
  define found where "found = get_enabled_outgoing_webhooks w (gn ev) ''weitersager''"
  have r: "fst (get_webhooks_for_irc gn ev w) = (if found = [] then Inr [] else sort_by_channel found)"
    by (simp add: irc_result_cases found_def)
  have a: "found = [] \<longrightarrow> fst (get_webhooks_for_irc gn ev w) = Inr []"
    by (simp add: r)
  have b: "sorted (map channel_key whs) \<and> mset whs = mset found \<and>
      (\<forall>k. filter (\<lambda>wh. channel_key wh = k) whs = filter (\<lambda>wh. channel_key wh = k) found) \<and>
      (2 \<le> length whs \<longrightarrow>
         (\<forall>wh\<in>set whs. extra_fields wh ''channel'' = Some (PyStr (channel_key wh))))"
    if "fst (get_webhooks_for_irc gn ev w) = Inr whs" for whs
  proof (cases "found = []")
    case True
    with that r show ?thesis by simp
  next
    case False
    with that r have s: "sort_by_channel found = Inr whs" by simp
    then have e: "whs = sort_key channel_key found"
      by (rule sort_by_channel_Inr(1))
    have "extra_fields wh ''channel'' = Some (PyStr (channel_key wh))"
      if "2 \<le> length whs" "wh \<in> set whs" for wh
      using sort_by_channel_Inr(2) [OF s, of wh] that e by simp
    with e show ?thesis
      by (simp add: sort_key_stable)
  qed
  have c: "list_all (\<lambda>wh. \<exists>c. extra_fields wh ''channel'' = Some (PyStr c)) found \<longrightarrow>
      fst (get_webhooks_for_irc gn ev w) = Inr (sort_key channel_key found)"
    by (auto simp: r sort_by_channel_total)
  from a b c show ?thesis unfolding found_def by blast
qed

theorem get_webhooks_for_irc_sorted_witness:
  "list_all (\<lambda>wh. \<exists>c. extra_fields wh ''channel'' = Some (PyStr c))
     (get_enabled_outgoing_webhooks w_irc ''user-badge-awarded'' ''weitersager'') \<and>
   fst (get_webhooks_for_irc (\<lambda>e. ''user-badge-awarded'') () w_irc) =
     Inr [irc_hook 2 [''channel'' \<mapsto> PyStr ''#a''], irc_hook 1 [''channel'' \<mapsto> PyStr ''#b'']] \<and>
   fst (get_webhooks_for_irc (\<lambda>e. ''user-account-created'') () w_irc) = Inr []"
  using get_webhooks_for_irc_sorted [of w_irc "\<lambda>e. ''user-badge-awarded''" "()"]
    get_webhooks_for_irc_sorted [of w_irc "\<lambda>e. ''user-account-created''" "()"]
  by (simp add: sample_defs get_enabled_outgoing_webhooks_def channel_key_def list_le_def)

text \<open>
  C6. An enabled IRC webhook without a \<^verbatim>\<open>channel\<close> entry, subscribed to the event:
  called directly, \<open>call_webhook\<close> logs the warning and posts the payload with the
  channel \<^verbatim>\<open>None\<close>; on the way through \<open>get_webhooks_for_irc\<close> the sort key
  \<^verbatim>\<open>wh.extra_fields['channel']\<close> raises \<^verbatim>\<open>KeyError\<close>, nothing is logged and nothing
  is posted.
\<close>

theorem irc_webhook_without_channel_raises:
  "deliver_to_irc (\<lambda>e. ''user-badge-awarded'') net_ok () ''hello'' w_nochan =
     (Inl (KeyError ''channel''), w_nochan) \<and>
   call_webhook net_ok (irc_hook 1 Map.empty) ''hello'' w_nochan =
     (Inr (), w_nochan\<lparr>warnings := [''No channel specified with IRC webhook.''],
        posts := [(''https://irc.example/relay'',
                   Some [''channel'' \<mapsto> PyNone, ''text'' \<mapsto> PyStr ''hello''])]\<rparr>)"
  by (simp add: sample_defs deliver_to_irc_def get_webhooks_for_irc_def
      get_enabled_outgoing_webhooks_def sort_by_channel_def call_webhook_def
      assemble_request_data_def dict_get_def)

section \<open>Properties of the IRC announcers\<close>




lemma sublist_mid: "sublist x (a @ x @ b)"
  by (auto simp: sublist_def)

text \<open>
  C8, as the code has it. For a \<^verbatim>\<open>UserBadgeAwarded\<close> event whose recipient (with a
  screen name) and badge are known, and whose initiator is absent or known, the announcer
  hands exactly one message to the IRC sender, for the organizer log channel, whatever
  the webhook registry holds; the text contains the badge's label and the recipient's
  screen name.
\<close>

theorem badge_awarded_one_message:
  assumes "find_user w user_id = Some u" and "screen_name u = Some name"
    and "find_badge w badge_id = Some b"
    and "initiator_id = None \<or> (\<exists>i. initiator_id = Some i \<and> find_user w i \<noteq> None)"
  shows "\<exists>t. sublist (label b) t \<and> sublist name t \<and>
           (\<forall>whs. announce_user_badge_awarded
                     (UserBadgeAwarded occurred_at initiator_id user_id badge_id)
                     (w\<lparr>webhooks := whs\<rparr>) =
                   (Inr (), w\<lparr>webhooks := whs,
                               irc_outbox := irc_outbox w @ [(CHANNEL_ORGA_LOG, t)]\<rparr>))"
proof -
  define iname where "iname = (case initiator_id of None \<Rightarrow> ''Jemand''
      | Some i \<Rightarrow> fstr (screen_name (the (find_user w i))))"
  define t where "t = iname @ '' hat das Abzeichen '' @ [CHR 0x22] @ label b @ [CHR 0x22]
                            @ '' an '' @ fstr (screen_name u) @ '' verliehen.''"
  have "sublist (label b) t"
    unfolding t_def using sublist_mid [of "label b" "iname @ '' hat das Abzeichen '' @ [CHR 0x22]"]
    by simp
  moreover have "sublist name t"
    unfolding t_def using assms(2)
      sublist_mid [of name "iname @ '' hat das Abzeichen '' @ [CHR 0x22] @ label b @ [CHR 0x22] @ '' an ''"
                   "'' verliehen.''"]
    by (simp add: fstr_def)
  moreover have "announce_user_badge_awarded
                     (UserBadgeAwarded occurred_at initiator_id user_id badge_id)
                     (w\<lparr>webhooks := whs\<rparr>) =
                   (Inr (), w\<lparr>webhooks := whs,
                               irc_outbox := irc_outbox w @ [(CHANNEL_ORGA_LOG, t)]\<rparr>)" for whs
    using assms(1,3,4)
    by (cases initiator_id)
       (auto simp: find_user_def find_badge_def send_message_def t_def iname_def)
  ultimately show ?thesis by blast
qed

theorem badge_awarded_one_message_witness:
  "find_user w_badge (UUID 10) = Some alice \<and> screen_name alice = Some ''Alice'' \<and>
   find_badge w_badge (UUID 20) = Some hero \<and>
   announce_user_badge_awarded (UserBadgeAwarded 0 None (UUID 10) (UUID 20)) w_badge =
     (Inr (), w_badge\<lparr>irc_outbox :=
        [(CHANNEL_ORGA_LOG, ''Jemand hat das Abzeichen '' @ [CHR 0x22] @ ''Hero'' @ [CHR 0x22]
            @ '' an Alice verliehen.'')]\<rparr>)"
  using badge_awarded_one_message [of w_badge "UUID 10" alice "''Alice''" "UUID 20" hero None 0]
  by (simp add: sample_defs find_user_def find_badge_def fstr_def send_message_def)

text \<open>
  C8, as stated, fails: with two enabled IRC webhooks subscribed to the event, the
  announcer still sends one message, and no POST request to a webhook.
\<close>

theorem badge_awarded_not_one_call_per_webhook:
  "length (get_enabled_outgoing_webhooks w_badge ''user-badge-awarded'' ''weitersager'') = 2 \<and>
   length (irc_outbox (snd (announce_user_badge_awarded
      (UserBadgeAwarded 0 None (UUID 10) (UUID 20)) w_badge))) = 1 \<and>
   posts (snd (announce_user_badge_awarded
      (UserBadgeAwarded 0 None (UUID 10) (UUID 20)) w_badge)) = []"
  by (simp add: sample_defs find_user_def find_badge_def fstr_def send_message_def
      get_enabled_outgoing_webhooks_def)

section \<open>Properties of delivery and of the test action\<close>

lemma call_webhook_result:
  "\<exists>d. posts (snd (call_webhook net wh t w)) = posts w @ [(url wh, d)] \<and>
       fst (call_webhook net wh t w) =
         (case net (url wh) d of Inl e \<Rightarrow> Inl e | Inr status \<Rightarrow> Inr ())"
  by (simp add: call_webhook_def Let_def split_beta split: sum.splits)

lemma flashes_call_webhook [simp]: "flashes (snd (call_webhook net wh t w)) = flashes w"
  by (simp add: call_webhook_def assemble_request_data_def Let_def split: sum.splits)


text \<open>
  C9, as the code has it. \<open>call_webhook\<close> issues exactly one POST request. It returns
  normally whatever status code the response has, and an exception raised by the request
  itself leaves \<open>call_webhook\<close>. The test action for an existing webhook issues that one
  request and always answers normally: it reports the text of a raised exception in an
  error message, and success otherwise.
\<close>

theorem call_webhook_one_post_no_retry:
  "(\<exists>d. posts (snd (call_webhook net wh t w)) = posts w @ [(url wh, d)] \<and>
        fst (call_webhook net wh t w) =
          (case net (url wh) d of Inl e \<Rightarrow> Inl e | Inr status \<Rightarrow> Inr ())) \<and>
   (find_webhook w i = Some wh \<longrightarrow>
      fst (test net gettext i w) = Inr No_content \<and>
      length (posts (snd (test net gettext i w))) = Suc (length (posts w)) \<and>
      flashes (snd (test net gettext i w)) = flashes w @
        [case fst (call_webhook net wh test_text w) of
           Inl e \<Rightarrow> FlashError (call_failed_text gettext e)
         | Inr _ \<Rightarrow> FlashSuccess (gettext ''Webhook call has been successful.'')])"
proof (intro conjI impI)
  show "\<exists>d. posts (snd (call_webhook net wh t w)) = posts w @ [(url wh, d)] \<and>
        fst (call_webhook net wh t w) =
          (case net (url wh) d of Inl e \<Rightarrow> Inl e | Inr status \<Rightarrow> Inr ())"
    by (rule call_webhook_result)
next
  assume f: "find_webhook w i = Some wh"
  obtain r w' where c: "call_webhook net wh test_text w = (r, w')"
    by (cases "call_webhook net wh test_text w")
  have p: "length (posts w') = Suc (length (posts w))"
    using posts_call_webhook [of net wh test_text w] c by simp
  have fl: "flashes w' = flashes w"
    using flashes_call_webhook [of net wh test_text w] c by simp
  from f c show "fst (test net gettext i w) = Inr No_content"
    by (cases r) (simp_all add: test_def)
  from f c p show "length (posts (snd (test net gettext i w))) = Suc (length (posts w))"
    by (cases r) (simp_all add: test_def)
  from f c fl show "flashes (snd (test net gettext i w)) = flashes w @
        [case fst (call_webhook net wh test_text w) of
           Inl e \<Rightarrow> FlashError (call_failed_text gettext e)
         | Inr _ \<Rightarrow> FlashSuccess (gettext ''Webhook call has been successful.'')]"
    by (cases r) (simp_all add: test_def)
qed

theorem call_webhook_one_post_no_retry_witness:
  "find_webhook w_reg (UUID 1) = Some wh_x \<and>
   fst (call_webhook net_error wh_x ''hello'' w_reg) = Inr () \<and>
   length (posts (snd (call_webhook net_error wh_x ''hello'' w_reg))) = 1 \<and>
   fst (test net_down (\<lambda>s. s) (UUID 1) w_reg) = Inr No_content \<and>
   flashes (snd (test net_down (\<lambda>s. s) (UUID 1) w_reg)) =
     [FlashError (''Webhook call failed:<br><pre style='' @ [CHR 0x22] @ ''white-space: pre-wrap;''
        @ [CHR 0x22] @ ''>Connection refused</pre>'')]"
  using call_webhook_one_post_no_retry [of net_error wh_x "''hello''" w_reg "UUID 1" "\<lambda>s. s"]
    call_webhook_one_post_no_retry [of net_down wh_x "''hello''" w_reg "UUID 1" "\<lambda>s. s"]
  by (simp add: sample_defs find_webhook_def call_webhook_def assemble_request_data_def
      test_def call_failed_text_def)

text \<open>
  C9, as stated, fails: when the network is down, the exception of the POST request is
  the outcome of \<open>call_webhook\<close>; it is not swallowed there.
\<close>

theorem network_failure_propagates:
  "fst (call_webhook net_down wh_x ''hello'' w0) = Inl (RequestException ''Connection refused'')"
  by (simp add: sample_defs call_webhook_def assemble_request_data_def)

section \<open>Properties of the administration views\<close>























end
